theory Spec2Isabelle
  imports Main "HOL-Library.AList"
begin

section \<open>Configuration values\<close>

text \<open>
  A chart configuration is a JavaScript value tree. Objects keep their properties in
  insertion order, as JavaScript does, so an object is an association list. \<open>Num\<close>
  holds the integer-valued numbers; fractions and NaN are not needed here.
\<close>

datatype jv =
    Undefined
  | Null
  | Bool bool
  | Num int
  | Str string
  | Arr "jv list"
  | Obj "(string \<times> jv) list"

type_synonym obj = "(string \<times> jv) list"

datatype error = TypeError

text \<open>JavaScript's truthiness, as used by \<open>if (chart.data?.datasets)\<close>.\<close>

fun truthy :: "jv \<Rightarrow> bool" where
  "truthy Undefined = False"
| "truthy Null = False"
| "truthy (Bool b) = b"
| "truthy (Num n) = (n \<noteq> 0)"
| "truthy (Str s) = (s \<noteq> [])"
| "truthy (Arr xs) = True"
| "truthy (Obj kvs) = True"

text \<open>\<open>o.k\<close> on an object: the property's value, \<open>undefined\<close> when there is none.\<close>

definition get :: "obj \<Rightarrow> string \<Rightarrow> jv" where
  "get kvs k = (case map_of kvs k of Some v \<Rightarrow> v | None \<Rightarrow> Undefined)"

text \<open>
  \<open>v?.k\<close> for the property names used here (\<open>datasets\<close>): \<open>undefined\<close> on
  \<open>undefined\<close> and \<open>null\<close>; a primitive or an array has no such property.
\<close>

fun opt_get :: "jv \<Rightarrow> string \<Rightarrow> jv" where
  "opt_get (Obj kvs) k = get kvs k"
| "opt_get _ k = Undefined"

text \<open>\<open>chart.data?.datasets\<close>\<close>

definition datasets_of :: "obj \<Rightarrow> jv" where
  "datasets_of chart = opt_get (get chart ''data'') ''datasets''"

text \<open>
  \<open>chart.data.datasets = v\<close>. The hooks reach it only after \<open>chart.data?.datasets\<close>
  was truthy, so \<open>chart.data\<close> is an object there; on anything else the assignment
  has no object to write to and the chart stays as it is. The data block is kept as a
  value inside the configuration: the write shows in the configuration that holds it,
  and what else may hold the same data block is not followed.
\<close>

definition set_datasets :: "jv \<Rightarrow> obj \<Rightarrow> obj" where
  "set_datasets v chart =
     (case get chart ''data'' of
        Obj d \<Rightarrow> AList.update ''data'' (Obj (AList.update ''datasets'' v d)) chart
      | _ \<Rightarrow> chart)"

text \<open>The decimal property name of an array index.\<close>

fun key_of_nat :: "nat \<Rightarrow> string" where
  "key_of_nat n =
     (if n < 10 then [char_of (48 + n)]
      else key_of_nat (n div 10) @ [char_of (48 + n mod 10)])"

text \<open>
  The own enumerable properties that an object spread \<open>{...v}\<close> copies: those of an
  object, the indexed elements of an array or a string, nothing for the other values.
\<close>

fun spread :: "jv \<Rightarrow> obj" where
  "spread (Obj kvs) = kvs"
| "spread (Arr xs) = zip (map key_of_nat [0..<length xs]) xs"
| "spread (Str s) = zip (map key_of_nat [0..<length s]) (map (\<lambda>c. Str [c]) s)"
| "spread _ = []"

text \<open>
  Writing the properties \<open>src\<close> one after the other into \<open>target\<close>, as the object
  literal \<open>{...target, ...src}\<close> does: a property already there keeps its place and
  takes the new value, a new one is appended.
\<close>

definition assign_all :: "obj \<Rightarrow> obj \<Rightarrow> obj" where
  "assign_all target src = foldl (\<lambda>acc (k, v). AList.update k v acc) target src"

text \<open>Objects of a running program have no property twice.\<close>

definition distinct_keys :: "obj \<Rightarrow> bool" where
  "distinct_keys kvs = distinct (map fst kvs)"

section \<open>The heap of objects the caller holds\<close>

text \<open>
  The base configuration and the option objects given to the registration methods are
  objects the caller holds by reference: a hook may write to them, and the caller may
  write to them after registering a hook. They live in a heap, addressed by position.
  An address outside the heap stands for \<open>undefined\<close>. What an object holds in its
  properties is kept as a value inside it: references are followed at the top level
  only, and an object nested in another is not shared with anything else.
\<close>

type_synonym addr = nat
type_synonym heap = "obj list"

definition fetch :: "heap \<Rightarrow> addr \<Rightarrow> obj option" where
  "fetch h a = (if a < length h then Some (h ! a) else None)"

text \<open>
  An argument is a value written at the call (a primitive, or a literal nobody else
  holds), or an object the caller holds.
\<close>

datatype arg = Val jv | Held addr

fun deref :: "heap \<Rightarrow> arg \<Rightarrow> jv" where
  "deref h (Val v) = v"
| "deref h (Held a) = (case fetch h a of Some kvs \<Rightarrow> Obj kvs | None \<Rightarrow> Undefined)"

text \<open>
  A hook takes the configuration object and returns one; it runs on the heap, may write
  to it, and may throw. A throw ends the run: the result is the error, with the heap
  as it is at the throw.
\<close>

type_synonym hook = "heap \<Rightarrow> addr \<Rightarrow> (error \<times> heap) + (heap \<times> addr)"

section \<open>The merge engine\<close>

text \<open>
  Modelled from the spec: \<open>mergeOptions\<close> is imported from the package
  \<open>@chartisan/chartisan\<close> and its body is not among the sources. The specification
  (section 4.2) gives it as: for each key of the fragment, if the base value and the
  fragment value are both mappings, merge them recursively; otherwise the fragment's
  value replaces the base's. Keys of the base alone are kept. The result is a new
  configuration.
\<close>

function (sequential) mergeOptions :: "obj \<Rightarrow> obj \<Rightarrow> obj"
  and merge_value :: "jv option \<Rightarrow> jv \<Rightarrow> jv" where
  "mergeOptions base [] = base"
| "mergeOptions base ((k, v) # frag) =
     mergeOptions (AList.update k (merge_value (map_of base k) v) base) frag"
| "merge_value (Some (Obj b)) (Obj f) = Obj (mergeOptions b f)"
| "merge_value _ v = v"
  by pat_completeness auto
termination
  by (relation "measure (\<lambda>x. case x of
                    Inl (b, f) \<Rightarrow> size_list (size_prod (\<lambda>_. 0) size) f
                  | Inr (b, v) \<Rightarrow> size v)") auto

text \<open>
  \<open>return mergeOptions(chart, frag)\<close>: the merged configuration is a new object, and
  the hook returns it. Without a configuration object there is nothing to merge into.
\<close>

definition return_merged ::
  "heap \<Rightarrow> addr \<Rightarrow> obj \<Rightarrow> (error \<times> heap) + (heap \<times> addr)" where
  "return_merged h a frag =
     (case fetch h a of
        None \<Rightarrow> Inl (TypeError, h)
      | Some chart \<Rightarrow> Inr (h @ [mergeOptions chart frag], length h))"

section \<open>The hooks of \<open>src/hooks.ts\<close>\<close>

text \<open>
  \<open>xs[index % xs.length]\<close>: on an empty array the remainder is NaN and the read
  gives \<open>undefined\<close>.
\<close>

definition at_mod :: "'a list \<Rightarrow> nat \<Rightarrow> 'a option" where
  "at_mod xs index = (if xs = [] then None else Some (xs ! (index mod length xs)))"

definition color_at :: "jv list \<Rightarrow> nat \<Rightarrow> jv" where
  "color_at colors index = (case at_mod colors index of Some c \<Rightarrow> c | None \<Rightarrow> Undefined)"

text \<open>
  The function pushed by \<open>colors\<close> (lines 42 to 52). It writes the new dataset array
  into the configuration object it was given and returns that object. \<open>map\<close> on a
  truthy value that is not an array throws.
\<close>

definition colors_hook :: "jv list \<Rightarrow> hook" where
  "colors_hook colors h a =
     (case fetch h a of
        None \<Rightarrow> Inl (TypeError, h)
      | Some chart \<Rightarrow>
          if truthy (datasets_of chart) then
            (case datasets_of chart of
               Arr ds \<Rightarrow>
                 Inr (h[a := set_datasets
                        (Arr (map (\<lambda>(index, dataset).
                                Obj (AList.update ''backgroundColor'' (color_at colors index)
                                      (AList.update ''borderColor'' (color_at colors index)
                                        (spread dataset))))
                              (enumerate 0 ds)))
                        chart], a)
             | _ \<Rightarrow> Inl (TypeError, h))
          else Inr (h, a))"

text \<open>
  \<open>colors(colors = colorPalette)\<close>: the default palette \<open>colorPalette\<close> is a constant
  of another package, a parameter here. \<open>None\<close> is the omitted argument.
\<close>

definition colors :: "jv list \<Rightarrow> jv list option \<Rightarrow> hook list \<Rightarrow> hook list" where
  "colors colorPalette colors_arg hooks =
     hooks @ [colors_hook (case colors_arg of None \<Rightarrow> colorPalette | Some c \<Rightarrow> c)]"

definition responsive :: "bool option \<Rightarrow> hook list \<Rightarrow> hook list" where
  "responsive maintainAspectRatio_arg hooks =
     (let maintainAspectRatio = (case maintainAspectRatio_arg of None \<Rightarrow> True | Some b \<Rightarrow> b)
      in hooks @ [\<lambda>h a. return_merged h a
            [(''options'', Obj [(''maintainAspectRatio'', Bool maintainAspectRatio)])]])"

text \<open>
  \<open>legend(legend = {})\<close>: a boolean becomes \<open>{display: legend}\<close> at registration; any
  other argument is kept as it is, an object by reference, and read when the hook runs.
  The default stands in for an argument that is \<open>undefined\<close>.
\<close>

definition legend_arg :: "arg \<Rightarrow> arg" where
  "legend_arg x =
     (let legend = (if x = Val Undefined then Val (Obj []) else x)
      in case legend of
           Val (Bool b) \<Rightarrow> Val (Obj [(''display'', Bool b)])
         | _ \<Rightarrow> legend)"

definition legend_hook :: "arg \<Rightarrow> hook" where
  "legend_hook legend h a =
     return_merged h a [(''options'', Obj [(''legend'', deref h legend)])]"

definition legend :: "arg \<Rightarrow> hook list \<Rightarrow> hook list" where
  "legend x hooks = hooks @ [legend_hook (legend_arg x)]"

definition displayAxes_hook :: "bool \<Rightarrow> bool \<Rightarrow> hook" where
  "displayAxes_hook display strict h a =
     (if strict then
        return_merged h a [(''options'', Obj [(''scale'', Obj [(''display'', Bool display)])])]
      else
        return_merged h a
          [(''options'', Obj [(''scales'', Obj
              [(''xAxes'', Arr [Obj [(''display'', Bool display)]]),
               (''yAxes'', Arr [Obj [(''display'', Bool display)]])])])])"

definition displayAxes :: "bool option \<Rightarrow> bool option \<Rightarrow> hook list \<Rightarrow> hook list" where
  "displayAxes display_arg strict_arg hooks =
     hooks @ [displayAxes_hook (case display_arg of None \<Rightarrow> True | Some b \<Rightarrow> b)
                               (case strict_arg of None \<Rightarrow> False | Some b \<Rightarrow> b)]"

text \<open>\<open>minimalist(value = true)\<close> calls the two methods on the chain, in this order.\<close>

definition minimalist :: "bool option \<Rightarrow> hook list \<Rightarrow> hook list" where
  "minimalist value_arg hooks =
     (let val = (case value_arg of None \<Rightarrow> True | Some b \<Rightarrow> b)
      in displayAxes (Some (\<not> val)) None
           (legend (Val (Obj [(''display'', Bool (\<not> val))])) hooks))"

definition padding_hook :: "arg \<Rightarrow> hook" where
  "padding_hook padding h a =
     return_merged h a
       [(''options'', Obj [(''layout'', Obj [(''padding'', deref h padding)])])]"

definition padding :: "arg \<Rightarrow> hook list \<Rightarrow> hook list" where
  "padding x hooks =
     hooks @ [padding_hook (if x = Val Undefined then Val (Num 5) else x)]"

text \<open>
  \<open>datasets(types, general = 'bar')\<close>. The first argument is one type tag or an array;
  an array's elements are strings or objects. Line 161 to 163 build the list \<open>t\<close> at
  registration: a string becomes \<open>{type: e}\<close>, any other element is kept as it is, an
  object by reference.
\<close>

datatype types_arg = OneType string | TypeList "arg list"

definition datasets_list :: "types_arg \<Rightarrow> arg list" where
  "datasets_list types =
     (case types of
        TypeList es \<Rightarrow>
          map (\<lambda>e. case e of Val (Str s) \<Rightarrow> Val (Obj [(''type'', Str s)]) | _ \<Rightarrow> e) es
      | OneType s \<Rightarrow> [Val (Obj [(''type'', Str s)])])"

text \<open>
  The function pushed by \<open>datasets\<close> (lines 164 to 175). It first writes
  \<open>chart.type\<close>, then tests for the dataset sequence. \<open>t[index % t.length]\<close> is read
  when the hook runs; spreading \<open>undefined\<close> adds nothing.
\<close>

definition fragment_at :: "heap \<Rightarrow> arg list \<Rightarrow> nat \<Rightarrow> jv" where
  "fragment_at h t index = (case at_mod t index of Some e \<Rightarrow> deref h e | None \<Rightarrow> Undefined)"

definition datasets_hook :: "arg list \<Rightarrow> string \<Rightarrow> hook" where
  "datasets_hook t general h a =
     (case fetch h a of
        None \<Rightarrow> Inl (TypeError, h)
      | Some chart0 \<Rightarrow>
          let chart = AList.update ''type'' (Str general) chart0;
              h1 = h[a := chart]
          in if truthy (datasets_of chart) then
               (case datasets_of chart of
                  Arr ds \<Rightarrow>
                    Inr (h1[a := set_datasets
                           (Arr (map (\<lambda>(index, dataset).
                                   Obj (assign_all (spread dataset)
                                         (spread (fragment_at h1 t index))))
                                 (enumerate 0 ds)))
                           chart], a)
                | _ \<Rightarrow> Inl (TypeError, h1))
             else Inr (h1, a))"

definition datasets :: "types_arg \<Rightarrow> string option \<Rightarrow> hook list \<Rightarrow> hook list" where
  "datasets types general_arg hooks =
     hooks @ [datasets_hook (datasets_list types)
                (case general_arg of None \<Rightarrow> ''bar'' | Some g \<Rightarrow> g)]"

text \<open>
  \<open>title(title = {})\<close>, lines 187 to 190: the fragment is built at registration, from
  the argument as it is on the heap then. A string gives \<open>{text: title, display: true}\<close>,
  anything else \<open>{display: true, ...title}\<close>.
\<close>

definition title_fragment :: "heap \<Rightarrow> arg \<Rightarrow> jv" where
  "title_fragment h0 x =
     (let title = (if x = Val Undefined then Val (Obj []) else x)
      in case title of
           Val (Str s) \<Rightarrow> Obj [(''text'', Str s), (''display'', Bool True)]
         | _ \<Rightarrow> Obj (assign_all [(''display'', Bool True)] (spread (deref h0 title))))"

definition title_hook :: "jv \<Rightarrow> hook" where
  "title_hook title h a = return_merged h a [(''options'', Obj [(''title'', title)])]"

definition title :: "heap \<Rightarrow> arg \<Rightarrow> hook list \<Rightarrow> hook list" where
  "title h0 x hooks = hooks @ [title_hook (title_fragment h0 x)]"

definition beginAtZero_hook :: "bool \<Rightarrow> hook" where
  "beginAtZero_hook beginAtZero h a =
     return_merged h a
       [(''options'', Obj [(''scales'', Obj
           [(''yAxes'', Arr [Obj [(''ticks'', Obj [(''beginAtZero'', Bool beginAtZero)])]])])])]"

definition beginAtZero :: "bool option \<Rightarrow> hook list \<Rightarrow> hook list" where
  "beginAtZero beginAtZero_arg hooks =
     hooks @ [beginAtZero_hook (case beginAtZero_arg of None \<Rightarrow> True | Some b \<Rightarrow> b)]"

section \<open>Applying a chain\<close>

text \<open>
  Modelled from the spec: the operation that applies the chain belongs to the base
  class \<open>Hooks\<close> of \<open>@chartisan/chartisan\<close>, not among the sources. The specification
  (section 4.3) gives it as a fold: start with the base, and for each hook in order
  replace the running configuration with the hook's output. An exception ends the run.
\<close>

fun apply_hooks ::
  "hook list \<Rightarrow> heap \<Rightarrow> addr \<Rightarrow> (error \<times> heap) + (heap \<times> addr)" where
  "apply_hooks [] h a = Inr (h, a)"
| "apply_hooks (hk # hks) h a =
     (case hk h a of Inl e \<Rightarrow> Inl e | Inr (h', a') \<Rightarrow> apply_hooks hks h' a')"

section \<open>Example values\<close>

definition example_palette :: "jv list" where
  "example_palette = [Str ''red'', Str ''blue'']"

definition example_chart :: obj where
  "example_chart =
     [(''type'', Str ''line''),
      (''data'', Obj [(''labels'', Arr [Str ''x'']),
                      (''datasets'', Arr [Obj [(''label'', Str ''a'')],
                                          Obj [(''label'', Str ''b''), (''borderColor'', Str ''old'')],
                                          Obj [(''label'', Str ''c''), (''type'', Str ''pie'')]])])]"

definition example_datasets :: "jv list" where
  "example_datasets = [Obj [(''label'', Str ''a'')],
                       Obj [(''label'', Str ''b''), (''borderColor'', Str ''old'')],
                       Obj [(''label'', Str ''c''), (''type'', Str ''pie'')]]"

definition example_chart5 :: obj where
  "example_chart5 =
     [(''type'', Str ''line''),
      (''data'', Obj [(''datasets'', Arr [Obj [(''label'', Str ''a'')],
                                          Obj [(''label'', Str ''b''), (''type'', Str ''pie'')],
                                          Obj [(''label'', Str ''c'')],
                                          Obj [(''label'', Str ''d'')],
                                          Obj [(''label'', Str ''e'')]])])]"

definition example_datasets5 :: "jv list" where
  "example_datasets5 = [Obj [(''label'', Str ''a'')],
                        Obj [(''label'', Str ''b''), (''type'', Str ''pie'')],
                        Obj [(''label'', Str ''c'')],
                        Obj [(''label'', Str ''d'')],
                        Obj [(''label'', Str ''e'')]]"

definition example_chart_no_datasets :: obj where
  "example_chart_no_datasets = [(''type'', Str ''line''), (''data'', Obj [(''labels'', Arr [Str ''x''])])]"

definition example_title :: obj where
  "example_title = [(''text'', Str ''Revenue''), (''display'', Bool False)]"

definition example_base :: obj where
  "example_base =
     [(''type'', Str ''line''),
      (''labels'', Arr [Str ''x'', Str ''y'']),
      (''options'', Obj [(''legend'', Obj [(''display'', Bool True)])])]"

definition example_fragment :: obj where
  "example_fragment =
     [(''options'', Obj [(''title'', Obj [(''text'', Str ''Revenue'')])]),
      (''labels'', Arr [Str ''z''])]"

definition example_chart_after_datasets :: obj where
  "example_chart_after_datasets =
     [(''type'', Str ''bar''),
      (''data'', Obj [(''labels'', Arr [Str ''x'']),
                      (''datasets'', Arr [Obj [(''label'', Str ''a''), (''type'', Str ''bar'')],
                                          Obj [(''label'', Str ''b''), (''borderColor'', Str ''old''),
                                               (''type'', Str ''bar'')],
                                          Obj [(''label'', Str ''c''), (''type'', Str ''bar'')]])])]"


definition example_chart_bad_datasets :: obj where
  "example_chart_bad_datasets = [(''type'', Str ''line''), (''data'', Obj [(''datasets'', Num 1)])]"

section \<open>Properties of the object operations\<close>

lemma get_update: "get (AList.update k v kvs) k' = (if k' = k then v else get kvs k')"
  by (simp add: get_def update_conv')

lemma truthy_opt_get_Obj: "truthy (opt_get v k) \<Longrightarrow> \<exists>d. v = Obj d"
  by (cases v) simp_all

lemma datasets_of_set_datasets:
  assumes "truthy (datasets_of chart)"
  shows "datasets_of (set_datasets v chart) = v"
proof -
  from assms obtain d where d: "get chart ''data'' = Obj d"
    unfolding datasets_of_def by (blast dest: truthy_opt_get_Obj)
  then show ?thesis
    by (simp add: set_datasets_def datasets_of_def get_update)
qed

lemma get_set_datasets: "k \<noteq> ''data'' \<Longrightarrow> get (set_datasets v chart) k = get chart k"
  by (simp add: set_datasets_def get_update split: jv.splits)

lemma colors_hook_on_datasets:
  assumes "fetch h a = Some chart" and "datasets_of chart = Arr ds"
  shows "colors_hook palette h a =
           Inr (h[a := set_datasets
                  (Arr (map (\<lambda>(index, dataset).
                          Obj (AList.update ''backgroundColor'' (color_at palette index)
                                (AList.update ''borderColor'' (color_at palette index)
                                  (spread dataset))))
                        (enumerate 0 ds)))
                  chart], a)"
  using assms by (simp add: colors_hook_def)

lemma example_fetch: "fetch [example_chart] 0 = Some example_chart"
  by (simp add: fetch_def)

lemma example_datasets_of: "datasets_of example_chart = Arr example_datasets"
  by (simp add: datasets_of_def get_def example_chart_def example_datasets_def)

lemma map_of_assign_all:
  "distinct_keys src \<Longrightarrow> map_of (assign_all target src) = map_of target ++ map_of src"
proof (induction src arbitrary: target)
  case Nil
  then show ?case by (simp add: assign_all_def)
next
  case (Cons kv src)
  obtain k v where kv: "kv = (k, v)"
    by (cases kv)
  from Cons.prems kv have k: "k \<notin> dom (map_of src)" and d: "distinct_keys src"
    by (auto simp: distinct_keys_def dom_map_of_conv_image_fst)
  have "assign_all target (kv # src) = assign_all (AList.update k v target) src"
    by (simp add: assign_all_def kv)
  then have "map_of (assign_all target (kv # src)) =
               map_of (AList.update k v target) ++ map_of src"
    using Cons.IH[OF d] by (simp only:)
  also have "\<dots> = (map_of target)(k \<mapsto> v) ++ map_of src"
    by (simp only: update_conv')
  also have "\<dots> = (map_of target ++ map_of src)(k \<mapsto> v)"
    using k by (rule map_add_upd_left)
  finally have lhs: "map_of (assign_all target (kv # src)) =
                      (map_of target ++ map_of src)(k \<mapsto> v)" .
  have "map_of (kv # src) = (map_of src)(k \<mapsto> v)"
    by (simp add: kv)
  then have "map_of target ++ map_of (kv # src) = (map_of target ++ map_of src)(k \<mapsto> v)"
    by (simp only: map_add_upd)
  with lhs show ?case
    by (simp only:)
qed

lemma datasets_of_update_type: "datasets_of (AList.update ''type'' v chart) = datasets_of chart"
  by (simp add: datasets_of_def get_update)

lemma datasets_hook_on_datasets:
  assumes "fetch h a = Some chart" and "datasets_of chart = Arr ds"
  shows "datasets_hook t general h a =
           Inr (h[a := set_datasets
                  (Arr (map (\<lambda>(index, dataset).
                          Obj (assign_all (spread dataset)
                                (spread (fragment_at (h[a := AList.update ''type'' (Str general) chart]) t index))))
                        (enumerate 0 ds)))
                  (AList.update ''type'' (Str general) chart)], a)"
  using assms by (simp add: datasets_hook_def datasets_of_update_type Let_def)

lemma datasets_hook_no_datasets:
  assumes "fetch h a = Some chart" and "\<not> truthy (datasets_of chart)"
  shows "datasets_hook t general h a = Inr (h[a := AList.update ''type'' (Str general) chart], a)"
  using assms by (simp add: datasets_hook_def datasets_of_update_type Let_def)

lemma colors_hook_no_datasets:
  assumes "fetch h a = Some chart" and "\<not> truthy (datasets_of chart)"
  shows "colors_hook palette h a = Inr (h, a)"
  using assms by (simp add: colors_hook_def)

lemma example5_fetch: "fetch [example_chart5] 0 = Some example_chart5"
  by (simp add: fetch_def)

lemma example5_datasets_of: "datasets_of example_chart5 = Arr example_datasets5"
  by (simp add: datasets_of_def get_def example_chart5_def example_datasets5_def)

lemma example_no_datasets: "datasets_of example_chart_no_datasets = Undefined"
  by (simp add: datasets_of_def get_def example_chart_no_datasets_def)

lemma merge_value_Obj:
  "merge_value m (Obj f) = Obj (case m of Some (Obj b) \<Rightarrow> mergeOptions b f | _ \<Rightarrow> f)"
proof (cases m)
  case None
  then show ?thesis by simp
next
  case (Some x)
  then show ?thesis by (cases x) simp_all
qed

lemma merge_value_not_Obj: "\<nexists>f. v = Obj f \<Longrightarrow> merge_value m v = v"
proof (cases m)
  case None
  then show ?thesis by simp
next
  case (Some x)
  assume "\<nexists>f. v = Obj f"
  with Some show ?thesis by (cases x; cases v) simp_all
qed

lemma merge_value_base_not_Obj: "\<nexists>b. m = Some (Obj b) \<Longrightarrow> merge_value m v = v"
proof (cases m)
  case None
  then show ?thesis by simp
next
  case (Some x)
  assume "\<nexists>b. m = Some (Obj b)"
  with Some show ?thesis by (cases x) simp_all
qed

lemma map_of_mergeOptions:
  "distinct_keys frag \<Longrightarrow>
   map_of (mergeOptions base frag) k =
     (case map_of frag k of
        None \<Rightarrow> map_of base k
      | Some fv \<Rightarrow> Some (merge_value (map_of base k) fv))"
proof (induction frag arbitrary: base)
  case Nil
  then show ?case by simp
next
  case (Cons kv frag)
  obtain k' v where kv: "kv = (k', v)"
    by (cases kv)
  from Cons.prems kv have k': "map_of frag k' = None" and d: "distinct_keys frag"
    by (auto simp: distinct_keys_def map_of_eq_None_iff)
  let ?base' = "AList.update k' (merge_value (map_of base k') v) base"
  have "map_of (mergeOptions base (kv # frag)) k = map_of (mergeOptions ?base' frag) k"
    by (simp add: kv)
  also have "\<dots> = (case map_of frag k of
                       None \<Rightarrow> map_of ?base' k
                     | Some fv \<Rightarrow> Some (merge_value (map_of ?base' k) fv))"
    by (rule Cons.IH[OF d])
  also have "\<dots> = (case map_of (kv # frag) k of
                       None \<Rightarrow> map_of base k
                     | Some fv \<Rightarrow> Some (merge_value (map_of base k) fv))"
    using k' by (cases "k = k'") (simp_all add: kv update_conv' split: option.splits)
  finally show ?case .
qed

lemma keys_mergeOptions: "fst ` set (mergeOptions base frag) = fst ` set base \<union> fst ` set frag"
proof (induction frag arbitrary: base)
  case Nil
  then show ?case by simp
next
  case (Cons kv frag)
  obtain k' v where kv: "kv = (k', v)"
    by (cases kv)
  show ?case
    unfolding kv by (auto simp: Cons.IH dom_update)
qed

lemma merge_value_Arr: "merge_value m (Arr xs) = Arr xs"
  by (rule merge_value_not_Obj) simp

lemma get_mergeOptions_single: "get (mergeOptions base [(k, v)]) k = merge_value (map_of base k) v"
  by (simp add: get_update)

lemma fetch_append_new: "fetch (h @ [c]) (length h) = Some c"
  by (simp add: fetch_def)

lemma return_merged_Some:
  "fetch h a = Some chart \<Longrightarrow>
   return_merged h a frag = Inr (h @ [mergeOptions chart frag], length h)"
  by (simp add: return_merged_def)

lemma axes_of_merged_scales:
  "get (mergeOptions b [(''xAxes'', Arr xs), (''yAxes'', Arr ys)]) ''xAxes'' = Arr xs
   \<and> get (mergeOptions b [(''xAxes'', Arr xs), (''yAxes'', Arr ys)]) ''yAxes'' = Arr ys"
  by (simp add: get_update merge_value_Arr)

lemma axes_of_merged_options:
  "\<exists>scales. get (mergeOptions b [(''scales'', Obj [(''xAxes'', Arr xs), (''yAxes'', Arr ys)])])
               ''scales'' = Obj scales
      \<and> get scales ''xAxes'' = Arr xs \<and> get scales ''yAxes'' = Arr ys"
proof -
  let ?S = "[(''xAxes'', Arr xs), (''yAxes'', Arr ys)]"
  let ?s = "case map_of b ''scales'' of Some (Obj b') \<Rightarrow> mergeOptions b' ?S | _ \<Rightarrow> ?S"
  have "get (mergeOptions b [(''scales'', Obj ?S)]) ''scales'' = Obj ?s"
    by (simp only: get_mergeOptions_single merge_value_Obj)
  moreover have "get ?s ''xAxes'' = Arr xs \<and> get ?s ''yAxes'' = Arr ys"
  proof (cases "\<exists>b'. map_of b ''scales'' = Some (Obj b')")
    case True
    then obtain b' where "map_of b ''scales'' = Some (Obj b')"
      by blast
    then have "?s = mergeOptions b' ?S"
      by simp
    then show ?thesis
      by (simp only: axes_of_merged_scales)
  next
    case False
    then have "?s = ?S"
      by (auto split: option.splits jv.splits)
    then show ?thesis
      by (simp add: get_def)
  qed
  ultimately show ?thesis
    by blast
qed

lemma axes_of_merged_chart:
  "\<exists>options scales.
      get (mergeOptions chart
            [(''options'', Obj [(''scales'', Obj [(''xAxes'', Arr xs), (''yAxes'', Arr ys)])])])
          ''options'' = Obj options
    \<and> get options ''scales'' = Obj scales
    \<and> get scales ''xAxes'' = Arr xs \<and> get scales ''yAxes'' = Arr ys"
proof -
  let ?O = "[(''scales'', Obj [(''xAxes'', Arr xs), (''yAxes'', Arr ys)])]"
  let ?o = "case map_of chart ''options'' of Some (Obj b) \<Rightarrow> mergeOptions b ?O | _ \<Rightarrow> ?O"
  have o: "get (mergeOptions chart [(''options'', Obj ?O)]) ''options'' = Obj ?o"
    by (simp only: get_mergeOptions_single merge_value_Obj)
  have plain: "\<exists>scales. get ?O ''scales'' = Obj scales
                 \<and> get scales ''xAxes'' = Arr xs \<and> get scales ''yAxes'' = Arr ys"
    by (simp add: get_def)
  have "\<exists>scales. get ?o ''scales'' = Obj scales
          \<and> get scales ''xAxes'' = Arr xs \<and> get scales ''yAxes'' = Arr ys"
  proof (cases "\<exists>b. map_of chart ''options'' = Some (Obj b)")
    case True
    then obtain b where "map_of chart ''options'' = Some (Obj b)"
      by blast
    then have "?o = mergeOptions b ?O"
      by simp
    then show ?thesis
      using axes_of_merged_options[of b xs ys] by simp
  next
    case False
    then have "?o = ?O"
      by (auto split: option.splits jv.splits)
    then show ?thesis
      using plain by simp
  qed
  with o show ?thesis
    by blast
qed

lemma datasets_hook_each:
  assumes "fetch h a = Some chart" and "datasets_of chart = Arr ds"
    and "h1 = h[a := AList.update ''type'' (Str general) chart]"
    and "\<forall>e\<in>set t. distinct_keys (spread (deref h1 e))"
  shows "\<exists>chart' ds'.
           datasets_hook t general h a = Inr (h[a := chart'], a)
         \<and> get chart' ''type'' = Str general
         \<and> datasets_of chart' = Arr ds' \<and> length ds' = length ds
         \<and> (\<forall>i<length ds. \<exists>kvs'.
              ds' ! i = Obj kvs'
            \<and> map_of kvs' =
                map_of (spread (ds ! i)) ++
                (if t = [] then Map.empty
                 else map_of (spread (deref h1 (t ! (i mod length t))))))"
proof -
  let ?chart1 = "AList.update ''type'' (Str general) chart"
  let ?f = "\<lambda>index dataset. assign_all (spread dataset) (spread (fragment_at h1 t index))"
  let ?ds' = "map (\<lambda>(index, dataset). Obj (?f index dataset)) (enumerate 0 ds)"
  let ?chart' = "set_datasets (Arr ?ds') ?chart1"
  have run: "datasets_hook t general h a = Inr (h[a := ?chart'], a)"
    using datasets_hook_on_datasets[OF assms(1,2)] assms(3) by simp
  have ty: "get ?chart' ''type'' = Str general"
    by (simp add: get_set_datasets get_update)
  have "truthy (datasets_of ?chart1)"
    using assms(2) by (simp add: datasets_of_update_type)
  then have ds: "datasets_of ?chart' = Arr ?ds'"
    by (rule datasets_of_set_datasets)
  have len: "length ?ds' = length ds"
    by simp
  have each: "\<exists>kvs'. ?ds' ! i = Obj kvs'
            \<and> map_of kvs' =
                map_of (spread (ds ! i)) ++
                (if t = [] then Map.empty
                 else map_of (spread (deref h1 (t ! (i mod length t)))))"
    if "i < length ds" for i
  proof -
    have nth: "?ds' ! i = Obj (?f i (ds ! i))"
      using that by (simp add: nth_enumerate_eq)
    have m: "map_of (?f i (ds ! i)) =
               map_of (spread (ds ! i)) ++
               (if t = [] then Map.empty
                else map_of (spread (deref h1 (t ! (i mod length t)))))"
    proof (cases "t = []")
      case True
      then show ?thesis
        by (simp add: fragment_at_def at_mod_def assign_all_def)
    next
      case False
      then have "t ! (i mod length t) \<in> set t"
        by simp
      with assms(4) have "distinct_keys (spread (deref h1 (t ! (i mod length t))))"
        by blast
      then show ?thesis
        using False by (simp add: fragment_at_def at_mod_def map_of_assign_all)
    qed
    from nth m show ?thesis
      by blast
  qed
  from run ty ds len each show ?thesis
    by blast
qed

lemma map_of_set_datasets:
  "k \<noteq> ''data'' \<Longrightarrow> map_of (set_datasets v chart) k = map_of chart k"
  by (simp add: set_datasets_def update_conv' split: jv.splits)

lemma data_block_set_datasets:
  "k \<noteq> ''datasets'' \<Longrightarrow>
   opt_get (get (set_datasets v chart) ''data'') k = opt_get (get chart ''data'') k"
  by (simp add: set_datasets_def get_update split: jv.splits)

lemma fetch_list_update_same: "a < length h \<Longrightarrow> fetch (h[a := c]) a = Some c"
  by (simp add: fetch_def)

lemma fetch_SomeD: "fetch h a = Some chart \<Longrightarrow> a < length h"
  by (simp add: fetch_def split: if_splits)

lemma colors_hook_not_array:
  assumes "fetch h a = Some chart" and "truthy (datasets_of chart)"
    and "\<nexists>ds. datasets_of chart = Arr ds"
  shows "colors_hook palette h a = Inl (TypeError, h)"
  using assms by (cases "datasets_of chart") (simp_all add: colors_hook_def)

lemma datasets_hook_not_array:
  assumes "fetch h a = Some chart" and "truthy (datasets_of chart)"
    and "\<nexists>ds. datasets_of chart = Arr ds"
  shows "datasets_hook t general h a =
           Inl (TypeError, h[a := AList.update ''type'' (Str general) chart])"
  using assms
  by (cases "datasets_of chart") (simp_all add: datasets_hook_def datasets_of_update_type Let_def)

lemma written_datasets:
  assumes "truthy (datasets_of chart)"
  shows "datasets_of (set_datasets v chart) = v
       \<and> (\<forall>k. k \<noteq> ''data'' \<longrightarrow> map_of (set_datasets v chart) k = map_of chart k)
       \<and> (\<forall>k. k \<noteq> ''datasets'' \<longrightarrow>
            opt_get (get (set_datasets v chart) ''data'') k = opt_get (get chart ''data'') k)"
  using datasets_of_set_datasets[OF assms]
  by (simp add: map_of_set_datasets data_block_set_datasets)

lemma example_datasets_run:
  "last (datasets (OneType ''bar'') None []) [example_chart] 0 =
     Inr ([example_chart_after_datasets], 0)"
  by (simp add: datasets_def datasets_hook_def datasets_list_def fetch_def datasets_of_def
        set_datasets_def fragment_at_def at_mod_def assign_all_def enumerate_eq_zip upt_rec
        get_def example_chart_def example_chart_after_datasets_def)

section \<open>The hook of \<open>colors\<close>\<close>

text \<open>
  C1. On a configuration whose dataset sequence has length \<open>n\<close>, the hook registered
  by \<open>colors\<close> returns the configuration object it was given, with a dataset
  sequence of length \<open>n\<close> in which dataset \<open>i\<close> has \<open>borderColor\<close> and
  \<open>backgroundColor\<close> both equal to \<open>palette[i mod k]\<close>, \<open>k\<close> the palette's length;
  the palette is the argument, or the default palette when no argument is given. (On
  an empty palette \<open>i % 0\<close> is NaN and both colours are \<open>undefined\<close>.)
\<close>

theorem colors_cycles_palette:
  assumes "fetch h a = Some chart" and "datasets_of chart = Arr ds"
    and "palette = (case colors_arg of None \<Rightarrow> colorPalette | Some c \<Rightarrow> c)"
  shows "\<exists>chart' ds'.
           last (colors colorPalette colors_arg hooks) h a = Inr (h[a := chart'], a)
         \<and> datasets_of chart' = Arr ds' \<and> length ds' = length ds
         \<and> (\<forall>i<length ds.
              opt_get (ds' ! i) ''borderColor'' =
                (if palette = [] then Undefined else palette ! (i mod length palette))
            \<and> opt_get (ds' ! i) ''backgroundColor'' =
                (if palette = [] then Undefined else palette ! (i mod length palette)))"
proof -
  let ?f = "\<lambda>index dataset.
              Obj (AList.update ''backgroundColor'' (color_at palette index)
                    (AList.update ''borderColor'' (color_at palette index) (spread dataset)))"
  let ?ds' = "map (\<lambda>(index, dataset). ?f index dataset) (enumerate 0 ds)"
  let ?chart' = "set_datasets (Arr ?ds') chart"
  have run: "last (colors colorPalette colors_arg hooks) h a = Inr (h[a := ?chart'], a)"
    using colors_hook_on_datasets[OF assms(1,2)] assms(3) by (simp add: colors_def)
  have "truthy (datasets_of chart)"
    using assms(2) by simp
  then have ds: "datasets_of ?chart' = Arr ?ds'"
    by (rule datasets_of_set_datasets)
  have len: "length ?ds' = length ds"
    by simp
  have col: "opt_get (?ds' ! i) ''borderColor'' =
               (if palette = [] then Undefined else palette ! (i mod length palette))
           \<and> opt_get (?ds' ! i) ''backgroundColor'' =
               (if palette = [] then Undefined else palette ! (i mod length palette))"
    if "i < length ds" for i
    using that by (simp add: nth_enumerate_eq get_update color_at_def at_mod_def)
  from run ds len col show ?thesis
    by blast
qed

theorem colors_cycles_palette_witness:
  "fetch [example_chart] 0 = Some example_chart
   \<and> datasets_of example_chart = Arr example_datasets
   \<and> (\<exists>chart' ds'.
        last (colors example_palette None []) [example_chart] 0 = Inr ([chart'], 0)
      \<and> datasets_of chart' = Arr ds' \<and> length ds' = 3
      \<and> opt_get (ds' ! 0) ''borderColor'' = Str ''red''
      \<and> opt_get (ds' ! 1) ''borderColor'' = Str ''blue''
      \<and> opt_get (ds' ! 2) ''backgroundColor'' = Str ''red'')"
proof -
  have p: "example_palette = (case None of None \<Rightarrow> example_palette | Some c \<Rightarrow> c)"
    by simp
  from colors_cycles_palette[OF example_fetch example_datasets_of p, where hooks = "[]"]
  obtain chart' ds' where
    r: "last (colors example_palette None []) [example_chart] 0 = Inr ([example_chart][0 := chart'], 0)"
    and d: "datasets_of chart' = Arr ds'" and l: "length ds' = length example_datasets"
    and c: "\<forall>i<length example_datasets.
              opt_get (ds' ! i) ''borderColor'' =
                (if example_palette = [] then Undefined
                 else example_palette ! (i mod length example_palette))
            \<and> opt_get (ds' ! i) ''backgroundColor'' =
                (if example_palette = [] then Undefined
                 else example_palette ! (i mod length example_palette))"
    by blast
  have n: "length example_datasets = 3"
    by (simp add: example_datasets_def)
  have r': "last (colors example_palette None []) [example_chart] 0 = Inr ([chart'], 0)"
    using r by simp
  have l': "length ds' = 3"
    using l n by simp
  have c0: "opt_get (ds' ! 0) ''borderColor'' = Str ''red''"
    using c[rule_format, of 0] n by (simp add: example_palette_def eval_nat_numeral)
  have c1: "opt_get (ds' ! 1) ''borderColor'' = Str ''blue''"
    using c[rule_format, of 1] n by (simp add: example_palette_def eval_nat_numeral)
  have c2: "opt_get (ds' ! 2) ''backgroundColor'' = Str ''red''"
    using c[rule_format, of 2] n by (simp add: example_palette_def eval_nat_numeral)
  from example_fetch example_datasets_of r' d l' c0 c1 c2 show ?thesis
    by blast
qed

text \<open>
  C10. On a configuration with a dataset sequence, the hook registered by \<open>colors\<close>
  returns a dataset sequence of the same length, and every entry keeps each of its
  properties other than \<open>borderColor\<close> and \<open>backgroundColor\<close> with its value; these
  two are the only properties added. (For an object entry \<open>spread\<close> is its property
  list.)
\<close>

theorem colors_keeps_other_fields:
  assumes "fetch h a = Some chart" and "datasets_of chart = Arr ds"
  shows "\<exists>chart' ds'.
           last (colors colorPalette colors_arg hooks) h a = Inr (h[a := chart'], a)
         \<and> datasets_of chart' = Arr ds' \<and> length ds' = length ds
         \<and> (\<forall>i<length ds. \<exists>kvs'.
              ds' ! i = Obj kvs'
            \<and> fst ` set kvs' = fst ` set (spread (ds ! i)) \<union> {''borderColor'', ''backgroundColor''}
            \<and> (\<forall>k. k \<noteq> ''borderColor'' \<and> k \<noteq> ''backgroundColor'' \<longrightarrow>
                   map_of kvs' k = map_of (spread (ds ! i)) k))"
proof -
  define palette where "palette = (case colors_arg of None \<Rightarrow> colorPalette | Some c \<Rightarrow> c)"
  let ?f = "\<lambda>index dataset.
              AList.update ''backgroundColor'' (color_at palette index)
                (AList.update ''borderColor'' (color_at palette index) (spread dataset))"
  let ?ds' = "map (\<lambda>(index, dataset). Obj (?f index dataset)) (enumerate 0 ds)"
  let ?chart' = "set_datasets (Arr ?ds') chart"
  have run: "last (colors colorPalette colors_arg hooks) h a = Inr (h[a := ?chart'], a)"
    using colors_hook_on_datasets[OF assms] by (simp add: colors_def palette_def)
  have "truthy (datasets_of chart)"
    using assms(2) by simp
  then have ds: "datasets_of ?chart' = Arr ?ds'"
    by (rule datasets_of_set_datasets)
  have len: "length ?ds' = length ds"
    by simp
  have keep: "\<exists>kvs'. ?ds' ! i = Obj kvs'
            \<and> fst ` set kvs' = fst ` set (spread (ds ! i)) \<union> {''borderColor'', ''backgroundColor''}
            \<and> (\<forall>k. k \<noteq> ''borderColor'' \<and> k \<noteq> ''backgroundColor'' \<longrightarrow>
                   map_of kvs' k = map_of (spread (ds ! i)) k)"
    if "i < length ds" for i
  proof -
    have "?ds' ! i = Obj (?f i (ds ! i))"
      using that by (simp add: nth_enumerate_eq)
    moreover have "fst ` set (?f i (ds ! i)) =
                     fst ` set (spread (ds ! i)) \<union> {''borderColor'', ''backgroundColor''}"
      by (auto simp: dom_update)
    moreover have "\<forall>k. k \<noteq> ''borderColor'' \<and> k \<noteq> ''backgroundColor'' \<longrightarrow>
                     map_of (?f i (ds ! i)) k = map_of (spread (ds ! i)) k"
      by (simp add: update_conv')
    ultimately show ?thesis
      by blast
  qed
  from run ds len keep show ?thesis
    by blast
qed

theorem colors_keeps_other_fields_witness:
  "fetch [example_chart] 0 = Some example_chart
   \<and> datasets_of example_chart = Arr example_datasets
   \<and> (\<exists>chart' ds'.
        last (colors example_palette None []) [example_chart] 0 = Inr ([chart'], 0)
      \<and> datasets_of chart' = Arr ds' \<and> length ds' = 3
      \<and> opt_get (ds' ! 1) ''label'' = Str ''b''
      \<and> opt_get (ds' ! 2) ''type'' = Str ''pie'')"
proof -
  from colors_keeps_other_fields[OF example_fetch example_datasets_of,
      where colors_arg = None and colorPalette = example_palette and hooks = "[]"]
  obtain chart' ds' where
    r: "last (colors example_palette None []) [example_chart] 0 = Inr ([example_chart][0 := chart'], 0)"
    and d: "datasets_of chart' = Arr ds'" and l: "length ds' = length example_datasets"
    and c: "\<forall>i<length example_datasets. \<exists>kvs'.
              ds' ! i = Obj kvs'
            \<and> fst ` set kvs' = fst ` set (spread (example_datasets ! i)) \<union> {''borderColor'', ''backgroundColor''}
            \<and> (\<forall>k. k \<noteq> ''borderColor'' \<and> k \<noteq> ''backgroundColor'' \<longrightarrow>
                   map_of kvs' k = map_of (spread (example_datasets ! i)) k)"
    by (elim exE conjE) (rule that)
  have n: "length example_datasets = 3"
    by (simp add: example_datasets_def)
  have "1 < length example_datasets" and "2 < length example_datasets"
    using n by simp_all
  note c1 = c[rule_format, OF this(1)] and c2 = c[rule_format, OF this(2)]
  from c1 obtain k1 where k1: "ds' ! 1 = Obj k1"
    and m1: "\<forall>k. k \<noteq> ''borderColor'' \<and> k \<noteq> ''backgroundColor'' \<longrightarrow>
               map_of k1 k = map_of (spread (example_datasets ! 1)) k"
    by (elim exE conjE) (rule that)
  from c2 obtain k2 where k2: "ds' ! 2 = Obj k2"
    and m2: "\<forall>k. k \<noteq> ''borderColor'' \<and> k \<noteq> ''backgroundColor'' \<longrightarrow>
               map_of k2 k = map_of (spread (example_datasets ! 2)) k"
    by (elim exE conjE) (rule that)
  have r': "last (colors example_palette None []) [example_chart] 0 = Inr ([chart'], 0)"
    using r by simp
  have l': "length ds' = 3"
    using l n by simp
  have f1: "opt_get (ds' ! 1) ''label'' = Str ''b''"
    using k1 m1[rule_format, of "''label''"] by (simp add: get_def example_datasets_def)
  have f2: "opt_get (ds' ! 2) ''type'' = Str ''pie''"
    using k2 m2[rule_format, of "''type''"] by (simp add: get_def example_datasets_def)
  from example_fetch example_datasets_of r' d l' f1 f2 show ?thesis
    by blast
qed

section \<open>The hook of \<open>datasets\<close>\<close>

text \<open>
  C5. On a configuration with a dataset sequence of length \<open>n\<close>, the hook registered by
  \<open>datasets(types, general)\<close> returns the configuration object it was given with the
  top-level type set to \<open>general\<close> (\<open>'bar'\<close> when omitted), and dataset \<open>i\<close> is the
  old dataset with the properties of entry \<open>i mod (list length)\<close> of the normalised list
  written over it: a property of the fragment wins, every other property of the
  dataset is kept. Objects have no property twice; the fragments are read from the
  heap as it is when the hook runs.
\<close>

theorem datasets_cycles_types:
  assumes "fetch h a = Some chart" and "datasets_of chart = Arr ds"
    and "t = datasets_list types"
    and "general = (case general_arg of None \<Rightarrow> ''bar'' | Some g \<Rightarrow> g)"
    and "h1 = h[a := AList.update ''type'' (Str general) chart]"
    and "\<forall>e\<in>set t. distinct_keys (spread (deref h1 e))"
  shows "\<exists>chart' ds'.
           last (datasets types general_arg hooks) h a = Inr (h[a := chart'], a)
         \<and> get chart' ''type'' = Str general
         \<and> datasets_of chart' = Arr ds' \<and> length ds' = length ds
         \<and> (\<forall>i<length ds. \<exists>kvs'.
              ds' ! i = Obj kvs'
            \<and> map_of kvs' =
                map_of (spread (ds ! i)) ++
                (if t = [] then Map.empty
                 else map_of (spread (deref h1 (t ! (i mod length t))))))"
proof -
  have "last (datasets types general_arg hooks) = datasets_hook t general"
    by (simp add: datasets_def assms(3,4))
  then show ?thesis
    using datasets_hook_each[OF assms(1,2,5,6)] by (simp only:)
qed

theorem datasets_cycles_types_witness:
  "fetch [example_chart5] 0 = Some example_chart5
   \<and> datasets_of example_chart5 = Arr example_datasets5
   \<and> (\<exists>chart' ds'.
        last (datasets (TypeList [Val (Str ''line''), Val (Str ''bar'')]) None []) [example_chart5] 0
          = Inr ([chart'], 0)
      \<and> get chart' ''type'' = Str ''bar''
      \<and> datasets_of chart' = Arr ds' \<and> length ds' = 5
      \<and> opt_get (ds' ! 0) ''type'' = Str ''line''
      \<and> opt_get (ds' ! 1) ''type'' = Str ''bar''
      \<and> opt_get (ds' ! 2) ''type'' = Str ''line''
      \<and> opt_get (ds' ! 3) ''type'' = Str ''bar''
      \<and> opt_get (ds' ! 4) ''type'' = Str ''line''
      \<and> opt_get (ds' ! 1) ''label'' = Str ''b'')"
proof -
  let ?types = "TypeList [Val (Str ''line''), Val (Str ''bar'')]"
  let ?t = "datasets_list ?types"
  let ?h1 = "[example_chart5][0 := AList.update ''type'' (Str ''bar'') example_chart5]"
  have t: "?t = [Val (Obj [(''type'', Str ''line'')]), Val (Obj [(''type'', Str ''bar'')])]"
    by (simp add: datasets_list_def)
  have g: "''bar'' = (case None of None \<Rightarrow> ''bar'' | Some g \<Rightarrow> g)"
    by simp
  have dk: "\<forall>e\<in>set ?t. distinct_keys (spread (deref ?h1 e))"
    by (simp add: t distinct_keys_def)
  from datasets_cycles_types[OF example5_fetch example5_datasets_of refl g refl dk, where hooks = "[]"]
  obtain chart' ds' where
    r: "last (datasets ?types None []) [example_chart5] 0 = Inr ([example_chart5][0 := chart'], 0)"
    and ty: "get chart' ''type'' = Str ''bar''"
    and d: "datasets_of chart' = Arr ds'" and l: "length ds' = length example_datasets5"
    and c: "\<forall>i<length example_datasets5. \<exists>kvs'.
              ds' ! i = Obj kvs'
            \<and> map_of kvs' =
                map_of (spread (example_datasets5 ! i)) ++
                (if ?t = [] then Map.empty
                 else map_of (spread (deref ?h1 (?t ! (i mod length ?t)))))"
    by (elim exE conjE) (rule that)
  have n: "length example_datasets5 = 5"
    by (simp add: example_datasets5_def)
  have r': "last (datasets ?types None []) [example_chart5] 0 = Inr ([chart'], 0)"
    using r by simp
  have l': "length ds' = 5"
    using l n by simp
  have lt: "length ?t = 2" and tne: "?t \<noteq> []"
    by (simp_all add: t)
  have e: "opt_get (ds' ! i) k =
             (case (map_of (spread (example_datasets5 ! i)) ++
                    map_of (spread (deref ?h1 (?t ! (i mod 2))))) k of
                Some v \<Rightarrow> v | None \<Rightarrow> Undefined)"
    if "i < 5" for i k
  proof -
    from that n have "i < length example_datasets5"
      by simp
    from c[rule_format, OF this] obtain kvs' where "ds' ! i = Obj kvs'"
      and "map_of kvs' =
             map_of (spread (example_datasets5 ! i)) ++
             (if ?t = [] then Map.empty
              else map_of (spread (deref ?h1 (?t ! (i mod length ?t)))))"
      by (elim exE conjE) (rule that)
    then show ?thesis
      by (simp add: get_def lt tne)
  qed
  have c0: "opt_get (ds' ! 0) ''type'' = Str ''line''"
    by (simp add: e t example_datasets5_def)
  have c1: "opt_get (ds' ! 1) ''type'' = Str ''bar''"
    by (simp add: e t example_datasets5_def)
  have c2: "opt_get (ds' ! 2) ''type'' = Str ''line''"
    by (simp add: e t example_datasets5_def)
  have c3: "opt_get (ds' ! 3) ''type'' = Str ''bar''"
    by (simp add: e t example_datasets5_def)
  have c4: "opt_get (ds' ! 4) ''type'' = Str ''line''"
    by (simp add: e t example_datasets5_def)
  have c5: "opt_get (ds' ! 1) ''label'' = Str ''b''"
    by (simp add: e t example_datasets5_def)
  from example5_fetch example5_datasets_of r' ty d l' c0 c1 c2 c3 c4 c5 show ?thesis
    by blast
qed

text \<open>
  C4, as stated, fails for \<open>datasets\<close>: on a configuration without a dataset
  sequence its hook still writes the top-level type.
\<close>

theorem datasets_hook_sets_type_without_datasets:
  "datasets_of example_chart_no_datasets = Undefined
   \<and> last (datasets (OneType ''line'') None []) [example_chart_no_datasets] 0 =
       Inr ([[(''type'', Str ''bar''), (''data'', Obj [(''labels'', Arr [Str ''x''])])]], 0)
   \<and> last (datasets (OneType ''line'') None []) [example_chart_no_datasets] 0 \<noteq>
       Inr ([example_chart_no_datasets], 0)"
  by (simp add: datasets_def datasets_hook_def datasets_list_def fetch_def datasets_of_def
        get_def example_chart_no_datasets_def)

text \<open>
  C4, amended. On a configuration whose dataset sequence is absent (or falsy), neither
  hook throws. The hook of \<open>colors\<close> returns the configuration object it was given and
  changes nothing. The hook of \<open>datasets\<close> returns the configuration object it was
  given with the top-level type set to \<open>general\<close> and every other property as it was.
\<close>

theorem hooks_without_datasets:
  assumes "fetch h a = Some chart" and "\<not> truthy (datasets_of chart)"
  shows "last (colors colorPalette colors_arg hooks) h a = Inr (h, a)
       \<and> (\<exists>chart'. last (datasets types general_arg hooks) h a = Inr (h[a := chart'], a)
            \<and> get chart' ''type'' = Str (case general_arg of None \<Rightarrow> ''bar'' | Some g \<Rightarrow> g)
            \<and> (\<forall>k. k \<noteq> ''type'' \<longrightarrow> map_of chart' k = map_of chart k))"
proof -
  let ?general = "case general_arg of None \<Rightarrow> ''bar'' | Some g \<Rightarrow> g"
  let ?chart' = "AList.update ''type'' (Str ?general) chart"
  have "last (colors colorPalette colors_arg hooks) h a = Inr (h, a)"
    using colors_hook_no_datasets[OF assms] by (simp add: colors_def)
  moreover have "last (datasets types general_arg hooks) h a = Inr (h[a := ?chart'], a)"
    using datasets_hook_no_datasets[OF assms] by (simp add: datasets_def)
  moreover have "get ?chart' ''type'' = Str ?general"
    by (simp add: get_update)
  moreover have "\<forall>k. k \<noteq> ''type'' \<longrightarrow> map_of ?chart' k = map_of chart k"
    by (simp add: update_conv')
  ultimately show ?thesis
    by blast
qed

theorem hooks_without_datasets_witness:
  "fetch [example_chart_no_datasets] 0 = Some example_chart_no_datasets
   \<and> \<not> truthy (datasets_of example_chart_no_datasets)
   \<and> last (colors example_palette None []) [example_chart_no_datasets] 0 =
       Inr ([example_chart_no_datasets], 0)
   \<and> (\<exists>chart'. last (datasets (OneType ''line'') (Some ''pie'') []) [example_chart_no_datasets] 0 =
                  Inr ([chart'], 0)
        \<and> get chart' ''type'' = Str ''pie''
        \<and> map_of chart' ''data'' = Some (Obj [(''labels'', Arr [Str ''x''])]))"
proof -
  have f: "fetch [example_chart_no_datasets] 0 = Some example_chart_no_datasets"
    by (simp add: fetch_def)
  have a: "\<not> truthy (datasets_of example_chart_no_datasets)"
    by (simp add: example_no_datasets)
  note w = hooks_without_datasets[OF f a, where colorPalette = example_palette
      and colors_arg = None and hooks = "[]" and types = "OneType ''line''"
      and general_arg = "Some ''pie''"]
  from w have c: "last (colors example_palette None []) [example_chart_no_datasets] 0 =
                    Inr ([example_chart_no_datasets], 0)"
    by (rule conjunct1)
  from w[THEN conjunct2] obtain chart' where
    r: "last (datasets (OneType ''line'') (Some ''pie'') []) [example_chart_no_datasets] 0 =
          Inr ([example_chart_no_datasets][0 := chart'], 0)"
    and ty: "get chart' ''type'' = Str (case Some ''pie'' of None \<Rightarrow> ''bar'' | Some g \<Rightarrow> g)"
    and k: "\<forall>k. k \<noteq> ''type'' \<longrightarrow> map_of chart' k = map_of example_chart_no_datasets k"
    by (elim exE conjE) (rule that)
  have r': "last (datasets (OneType ''line'') (Some ''pie'') []) [example_chart_no_datasets] 0 =
              Inr ([chart'], 0)"
    using r by simp
  have ty': "get chart' ''type'' = Str ''pie''"
    using ty by simp
  have d: "map_of chart' ''data'' = Some (Obj [(''labels'', Arr [Str ''x''])])"
    using k[rule_format, of "''data''"] by (simp add: example_chart_no_datasets_def)
  from f a c r' ty' d show ?thesis
    by blast
qed

section \<open>Properties of the merge engine\<close>

text \<open>
  C2. For a fragment (an object, so with no key twice) merged onto a base: at a key of
  the fragment where base and fragment both hold mappings, the result holds their
  recursive merge, whose keys are the union of both key sets; at a key of the fragment
  where either value is not a mapping (scalar, array, mismatch), the result holds the
  fragment's value; an array of the fragment always replaces what the base had; a key
  of the base alone keeps its value; the result's keys are those of both.
\<close>

theorem mergeOptions_by_key:
  assumes "distinct_keys frag"
  shows "(\<forall>k b f. map_of base k = Some (Obj b) \<and> map_of frag k = Some (Obj f) \<longrightarrow>
            map_of (mergeOptions base frag) k = Some (Obj (mergeOptions b f))
          \<and> fst ` set (mergeOptions b f) = fst ` set b \<union> fst ` set f)
       \<and> (\<forall>k fv. map_of frag k = Some fv
                 \<and> ((\<nexists>b. map_of base k = Some (Obj b)) \<or> (\<nexists>f. fv = Obj f)) \<longrightarrow>
            map_of (mergeOptions base frag) k = Some fv)
       \<and> (\<forall>k xs. map_of frag k = Some (Arr xs) \<longrightarrow>
            map_of (mergeOptions base frag) k = Some (Arr xs))
       \<and> (\<forall>k. map_of frag k = None \<longrightarrow>
            map_of (mergeOptions base frag) k = map_of base k)
       \<and> fst ` set (mergeOptions base frag) = fst ` set base \<union> fst ` set frag"
proof -
  note m = map_of_mergeOptions[OF assms]
  have both: "map_of (mergeOptions base frag) k = Some (Obj (mergeOptions b f))
            \<and> fst ` set (mergeOptions b f) = fst ` set b \<union> fst ` set f"
    if "map_of base k = Some (Obj b) \<and> map_of frag k = Some (Obj f)" for k b f
    using that by (simp add: m keys_mergeOptions)
  have other: "map_of (mergeOptions base frag) k = Some fv"
    if "map_of frag k = Some fv
        \<and> ((\<nexists>b. map_of base k = Some (Obj b)) \<or> (\<nexists>f. fv = Obj f))" for k fv
    using that merge_value_not_Obj[of fv "map_of base k"]
      merge_value_base_not_Obj[of "map_of base k" fv]
    by (auto simp: m)
  have arr: "map_of (mergeOptions base frag) k = Some (Arr xs)"
    if "map_of frag k = Some (Arr xs)" for k xs
    using that by (simp add: m merge_value_not_Obj)
  have only_base: "map_of (mergeOptions base frag) k = map_of base k"
    if "map_of frag k = None" for k
    using that by (simp add: m)
  from both other arr only_base keys_mergeOptions show ?thesis
    by blast
qed

theorem mergeOptions_by_key_witness:
  "distinct_keys example_fragment
   \<and> map_of (mergeOptions example_base example_fragment) ''options'' =
       Some (Obj (mergeOptions [(''legend'', Obj [(''display'', Bool True)])]
                               [(''title'', Obj [(''text'', Str ''Revenue'')])]))
   \<and> map_of (mergeOptions example_base example_fragment) ''labels'' = Some (Arr [Str ''z''])
   \<and> map_of (mergeOptions example_base example_fragment) ''type'' = Some (Str ''line'')"
proof -
  have d: "distinct_keys example_fragment"
    by (simp add: distinct_keys_def example_fragment_def)
  note w = mergeOptions_by_key[OF d, of example_base]
  have b: "map_of example_base ''options'' = Some (Obj [(''legend'', Obj [(''display'', Bool True)])])
         \<and> map_of example_fragment ''options'' = Some (Obj [(''title'', Obj [(''text'', Str ''Revenue'')])])"
    by (simp add: example_base_def example_fragment_def)
  have l: "map_of example_fragment ''labels'' = Some (Arr [Str ''z''])"
    by (simp add: example_fragment_def)
  have t: "map_of example_fragment ''type'' = None"
    by (simp add: example_fragment_def)
  have "map_of (mergeOptions example_base example_fragment) ''options'' =
       Some (Obj (mergeOptions [(''legend'', Obj [(''display'', Bool True)])]
                               [(''title'', Obj [(''text'', Str ''Revenue'')])]))"
    using w[THEN conjunct1, rule_format, OF b] by (rule conjunct1)
  moreover have "map_of (mergeOptions example_base example_fragment) ''labels'' = Some (Arr [Str ''z''])"
    using w[THEN conjunct2, THEN conjunct2, THEN conjunct1, rule_format, OF l] .
  moreover have "map_of (mergeOptions example_base example_fragment) ''type'' = Some (Str ''line'')"
    using w[THEN conjunct2, THEN conjunct2, THEN conjunct2, THEN conjunct1, rule_format, OF t]
    by (simp add: example_base_def)
  ultimately show ?thesis
    using d by blast
qed

section \<open>The registration methods built on the merge\<close>

text \<open>
  C6. \<open>title\<close> builds its fragment at registration. A bare string \<open>s\<close> gives
  \<open>{text: s, display: true}\<close>. An options object gives an object with the properties
  of the argument and \<open>display: true\<close> unless the argument has its own \<open>display\<close>,
  which is kept. The hook registered merges this fragment under \<open>options.title\<close>.
\<close>

theorem title_normalises:
  assumes "deref h0 x = Obj kvs" and "distinct_keys kvs"
  shows "title_fragment h0 (Val (Str s)) = Obj [(''text'', Str s), (''display'', Bool True)]
       \<and> (\<exists>kvs'. title_fragment h0 x = Obj kvs'
            \<and> map_of kvs' = [''display'' \<mapsto> Bool True] ++ map_of kvs)
       \<and> title h0 x hooks = hooks @ [title_hook (title_fragment h0 x)]"
proof -
  have s: "title_fragment h0 (Val (Str s)) = Obj [(''text'', Str s), (''display'', Bool True)]"
    by (simp add: title_fragment_def)
  have x: "x \<noteq> Val Undefined" and nostr: "\<nexists>s. x = Val (Str s)"
    using assms(1) by auto
  have "title_fragment h0 x = Obj (assign_all [(''display'', Bool True)] kvs)"
  proof (cases x)
    case (Val v)
    with assms(1) have "v = Obj kvs"
      by simp
    with Val show ?thesis
      by (simp add: title_fragment_def)
  next
    case (Held r)
    with assms(1) show ?thesis
      by (simp add: title_fragment_def)
  qed
  moreover have "map_of (assign_all [(''display'', Bool True)] kvs) =
                   [''display'' \<mapsto> Bool True] ++ map_of kvs"
    using map_of_assign_all[OF assms(2), of "[(''display'', Bool True)]"] by simp
  ultimately have o: "\<exists>kvs'. title_fragment h0 x = Obj kvs'
            \<and> map_of kvs' = [''display'' \<mapsto> Bool True] ++ map_of kvs"
    by blast
  have "title h0 x hooks = hooks @ [title_hook (title_fragment h0 x)]"
    by (simp add: title_def)
  with s o show ?thesis
    by blast
qed

theorem title_normalises_witness:
  "deref [] (Val (Obj example_title)) = Obj example_title
   \<and> distinct_keys example_title
   \<and> title_fragment [] (Val (Str ''Revenue'')) =
       Obj [(''text'', Str ''Revenue''), (''display'', Bool True)]
   \<and> (\<exists>kvs'. title_fragment [] (Val (Obj example_title)) = Obj kvs'
        \<and> map_of kvs' ''text'' = Some (Str ''Revenue'')
        \<and> map_of kvs' ''display'' = Some (Bool False)
        \<and> dom (map_of kvs') = {''text'', ''display''})"
proof -
  have a: "deref [] (Val (Obj example_title)) = Obj example_title"
    by simp
  have d: "distinct_keys example_title"
    by (simp add: distinct_keys_def example_title_def)
  note w = title_normalises[OF a d, of "''Revenue''" "[]"]
  from w have s: "title_fragment [] (Val (Str ''Revenue'')) =
                    Obj [(''text'', Str ''Revenue''), (''display'', Bool True)]"
    by (rule conjunct1)
  from w[THEN conjunct2, THEN conjunct1] obtain kvs' where
    o: "title_fragment [] (Val (Obj example_title)) = Obj kvs'"
    and m: "map_of kvs' = [''display'' \<mapsto> Bool True] ++ map_of example_title"
    by (elim exE conjE) (rule that)
  have t: "map_of kvs' ''text'' = Some (Str ''Revenue'')"
    by (simp add: m example_title_def)
  have di: "map_of kvs' ''display'' = Some (Bool False)"
    by (simp add: m example_title_def)
  have k: "dom (map_of kvs') = {''text'', ''display''}"
    by (auto simp: m example_title_def)
  from a d s o t di k show ?thesis
    by blast
qed

text \<open>
  C7. \<open>minimalist(value)\<close> leaves the chain as \<open>legend({display: !value})\<close> followed
  by \<open>displayAxes(!value)\<close> leaves it: the two hooks are appended at the end of the
  chain as it is at the call, in this order; an omitted \<open>value\<close> is \<open>true\<close>. Applying
  the two chains gives the same result.
\<close>

theorem minimalist_is_legend_then_displayAxes:
  "minimalist (Some val) hooks =
     displayAxes (Some (\<not> val)) None (legend (Val (Obj [(''display'', Bool (\<not> val))])) hooks)
   \<and> minimalist (Some val) hooks =
       hooks @ [legend_hook (Val (Obj [(''display'', Bool (\<not> val))])),
                displayAxes_hook (\<not> val) False]
   \<and> minimalist None hooks = minimalist (Some True) hooks
   \<and> apply_hooks (minimalist (Some val) hooks) h a =
       apply_hooks (displayAxes (Some (\<not> val)) None
                      (legend (Val (Obj [(''display'', Bool (\<not> val))])) hooks)) h a"
  by (simp add: minimalist_def displayAxes_def legend_def legend_arg_def)

text \<open>
  C8. On every base configuration, applying the chain of \<open>displayAxes(true, false)\<close>
  then \<open>displayAxes(false, false)\<close> gives a configuration whose
  \<open>options.scales.xAxes\<close> and \<open>options.scales.yAxes\<close> are exactly
  \<open>[{display: false}]\<close>.
\<close>

theorem displayAxes_twice_replaces:
  assumes "fetch h a = Some chart"
  shows "\<exists>h' a' chart' options scales.
           apply_hooks (displayAxes (Some False) (Some False)
                         (displayAxes (Some True) (Some False) [])) h a = Inr (h', a')
         \<and> fetch h' a' = Some chart'
         \<and> get chart' ''options'' = Obj options
         \<and> get options ''scales'' = Obj scales
         \<and> get scales ''xAxes'' = Arr [Obj [(''display'', Bool False)]]
         \<and> get scales ''yAxes'' = Arr [Obj [(''display'', Bool False)]]"
proof -
  let ?frag = "\<lambda>d. [(''options'', Obj [(''scales'', Obj
                    [(''xAxes'', Arr [Obj [(''display'', Bool d)]]),
                     (''yAxes'', Arr [Obj [(''display'', Bool d)]])])])]"
  let ?c1 = "mergeOptions chart (?frag True)"
  let ?c2 = "mergeOptions ?c1 (?frag False)"
  have s1: "displayAxes_hook True False h a = Inr (h @ [?c1], length h)"
    using return_merged_Some[OF assms] by (simp add: displayAxes_hook_def)
  have s2: "displayAxes_hook False False (h @ [?c1]) (length h) =
              Inr ((h @ [?c1]) @ [?c2], length (h @ [?c1]))"
    using return_merged_Some[OF fetch_append_new] by (simp add: displayAxes_hook_def)
  have run: "apply_hooks (displayAxes (Some False) (Some False)
                           (displayAxes (Some True) (Some False) [])) h a =
               Inr ((h @ [?c1]) @ [?c2], length (h @ [?c1]))"
    by (simp only: displayAxes_def option.case append_Nil append_Cons apply_hooks.simps
          s1 s2 sum.case prod.case)
  have f: "fetch ((h @ [?c1]) @ [?c2]) (length (h @ [?c1])) = Some ?c2"
    by (rule fetch_append_new)
  from axes_of_merged_chart[of ?c1 "[Obj [(''display'', Bool False)]]"
      "[Obj [(''display'', Bool False)]]"]
  obtain options scales where "get ?c2 ''options'' = Obj options"
    and "get options ''scales'' = Obj scales"
    and "get scales ''xAxes'' = Arr [Obj [(''display'', Bool False)]]"
    and "get scales ''yAxes'' = Arr [Obj [(''display'', Bool False)]]"
    by (elim exE conjE) (rule that)
  with run f show ?thesis
    by blast
qed

theorem displayAxes_twice_replaces_witness:
  "fetch [example_chart] 0 = Some example_chart
   \<and> (\<exists>h' a' chart' options scales.
           apply_hooks (displayAxes (Some False) (Some False)
                         (displayAxes (Some True) (Some False) [])) [example_chart] 0 = Inr (h', a')
         \<and> fetch h' a' = Some chart'
         \<and> get chart' ''options'' = Obj options
         \<and> get options ''scales'' = Obj scales
         \<and> get scales ''xAxes'' = Arr [Obj [(''display'', Bool False)]]
         \<and> get scales ''yAxes'' = Arr [Obj [(''display'', Bool False)]])"
  using example_fetch displayAxes_twice_replaces[OF example_fetch] by (rule conjI)

section \<open>Which objects the hooks write and read\<close>

text \<open>
  C3, as stated, fails: the hook of \<open>datasets\<close> returns the configuration object the
  caller passed in, and writes to it. Here the caller's object at address 0 has the
  type \<open>line\<close> before the hook runs and the type \<open>bar\<close> after, and its
  \<open>data.datasets\<close> is another array.
\<close>

theorem datasets_hook_writes_callers_object:
  "get example_chart ''type'' = Str ''line''
   \<and> last (datasets (OneType ''bar'') None []) [example_chart] 0 =
       Inr ([example_chart_after_datasets], 0)
   \<and> get example_chart_after_datasets ''type'' = Str ''bar''
   \<and> datasets_of example_chart_after_datasets \<noteq> datasets_of example_chart"
  by (simp add: example_datasets_run)
     (simp add: datasets_of_def get_def example_chart_def example_chart_after_datasets_def)

text \<open>
  C3, amended. The hooks registered by \<open>colors\<close> and \<open>datasets\<close> return the
  configuration object they were given, written in place. When the dataset sequence
  is an array, both assign to \<open>data.datasets\<close> of that object the rebuilt sequence:
  entry \<open>i\<close> is \<open>{...dataset, borderColor, backgroundColor}\<close> for \<open>colors\<close> and
  \<open>{...dataset, ...t[i mod length]}\<close> for \<open>datasets\<close>; every other property of the
  data block, and every property of the configuration other than \<open>data\<close> (and
  \<open>type\<close> for \<open>datasets\<close>), keeps its value. The hook of \<open>datasets\<close> assigns the
  top-level type in every case, and first: with no dataset sequence that is its only
  write, and with a sequence that is not an array it has made this write when it
  throws. The hook of \<open>colors\<close> writes nothing in these two cases. A hook registered by
  \<open>responsive\<close>, \<open>legend\<close>, \<open>displayAxes\<close>, \<open>padding\<close>, \<open>title\<close> or \<open>beginAtZero\<close>
  returns, as a new object, the configuration the merge builds from the configuration
  given and the hook's fragment; the objects of the caller are as they were.
\<close>

theorem hooks_write_effects:
  assumes "fetch h a = Some chart"
    and "palette = (case c of None \<Rightarrow> colorPalette | Some p \<Rightarrow> p)"
    and "general = (case g of None \<Rightarrow> ''bar'' | Some s \<Rightarrow> s)"
    and "t = datasets_list types"
    and "h1 = h[a := AList.update ''type'' (Str general) chart]"
  shows
   "(\<forall>ds. datasets_of chart = Arr ds \<longrightarrow>
       (\<exists>h' chart'.
           last (colors colorPalette c hooks) h a = Inr (h', a) \<and> fetch h' a = Some chart'
         \<and> datasets_of chart' =
             Arr (map (\<lambda>(index, dataset).
                    Obj (AList.update ''backgroundColor'' (color_at palette index)
                          (AList.update ''borderColor'' (color_at palette index)
                            (spread dataset))))
                  (enumerate 0 ds))
         \<and> (\<forall>k. k \<noteq> ''data'' \<longrightarrow> map_of chart' k = map_of chart k)
         \<and> (\<forall>k. k \<noteq> ''datasets'' \<longrightarrow>
               opt_get (get chart' ''data'') k = opt_get (get chart ''data'') k))
     \<and> (\<exists>h' chart'.
           last (datasets types g hooks) h a = Inr (h', a) \<and> fetch h' a = Some chart'
         \<and> get chart' ''type'' = Str general
         \<and> datasets_of chart' =
             Arr (map (\<lambda>(index, dataset).
                    Obj (assign_all (spread dataset) (spread (fragment_at h1 t index))))
                  (enumerate 0 ds))
         \<and> (\<forall>k. k \<noteq> ''data'' \<and> k \<noteq> ''type'' \<longrightarrow> map_of chart' k = map_of chart k)
         \<and> (\<forall>k. k \<noteq> ''datasets'' \<longrightarrow>
               opt_get (get chart' ''data'') k = opt_get (get chart ''data'') k)))
  \<and> (\<not> truthy (datasets_of chart) \<longrightarrow>
        last (colors colorPalette c hooks) h a = Inr (h, a)
      \<and> last (datasets types g hooks) h a = Inr (h1, a))
  \<and> (truthy (datasets_of chart) \<and> (\<nexists>ds. datasets_of chart = Arr ds) \<longrightarrow>
        last (colors colorPalette c hooks) h a = Inl (TypeError, h)
      \<and> last (datasets types g hooks) h a = Inl (TypeError, h1))
  \<and> last (responsive m hooks) h a =
        Inr (h @ [mergeOptions chart
                    [(''options'', Obj [(''maintainAspectRatio'',
                        Bool (case m of None \<Rightarrow> True | Some b \<Rightarrow> b))])]],
             length h)
  \<and> last (legend l hooks) h a =
        Inr (h @ [mergeOptions chart [(''options'', Obj [(''legend'', deref h (legend_arg l))])]],
             length h)
  \<and> last (displayAxes d s hooks) h a =
        Inr (h @ [mergeOptions chart
                    (if (case s of None \<Rightarrow> False | Some b \<Rightarrow> b)
                     then [(''options'', Obj [(''scale'', Obj
                             [(''display'', Bool (case d of None \<Rightarrow> True | Some b \<Rightarrow> b))])])]
                     else [(''options'', Obj [(''scales'', Obj
                             [(''xAxes'', Arr [Obj [(''display'',
                                 Bool (case d of None \<Rightarrow> True | Some b \<Rightarrow> b))]]),
                              (''yAxes'', Arr [Obj [(''display'',
                                 Bool (case d of None \<Rightarrow> True | Some b \<Rightarrow> b))]])])])])],
             length h)
  \<and> last (padding p hooks) h a =
        Inr (h @ [mergeOptions chart
                    [(''options'', Obj [(''layout'', Obj [(''padding'',
                        deref h (if p = Val Undefined then Val (Num 5) else p))])])]],
             length h)
  \<and> last (title h0 x hooks) h a =
        Inr (h @ [mergeOptions chart [(''options'', Obj [(''title'', title_fragment h0 x)])]],
             length h)
  \<and> last (beginAtZero z hooks) h a =
        Inr (h @ [mergeOptions chart
                    [(''options'', Obj [(''scales'', Obj
                        [(''yAxes'', Arr [Obj [(''ticks'', Obj [(''beginAtZero'',
                            Bool (case z of None \<Rightarrow> True | Some b \<Rightarrow> b))])]])])])]],
             length h)"
proof -
  note a = fetch_SomeD[OF assms(1)]
  let ?chart1 = "AList.update ''type'' (Str general) chart"
  have colors: "last (colors colorPalette c hooks) = colors_hook palette"
    by (simp add: colors_def assms(2))
  have datasets: "last (datasets types g hooks) = datasets_hook t general"
    by (simp add: datasets_def assms(3,4))
  have present: "(\<exists>h' chart'.
           last (colors colorPalette c hooks) h a = Inr (h', a) \<and> fetch h' a = Some chart'
         \<and> datasets_of chart' =
             Arr (map (\<lambda>(index, dataset).
                    Obj (AList.update ''backgroundColor'' (color_at palette index)
                          (AList.update ''borderColor'' (color_at palette index)
                            (spread dataset))))
                  (enumerate 0 ds))
         \<and> (\<forall>k. k \<noteq> ''data'' \<longrightarrow> map_of chart' k = map_of chart k)
         \<and> (\<forall>k. k \<noteq> ''datasets'' \<longrightarrow>
               opt_get (get chart' ''data'') k = opt_get (get chart ''data'') k))
     \<and> (\<exists>h' chart'.
           last (datasets types g hooks) h a = Inr (h', a) \<and> fetch h' a = Some chart'
         \<and> get chart' ''type'' = Str general
         \<and> datasets_of chart' =
             Arr (map (\<lambda>(index, dataset).
                    Obj (assign_all (spread dataset) (spread (fragment_at h1 t index))))
                  (enumerate 0 ds))
         \<and> (\<forall>k. k \<noteq> ''data'' \<and> k \<noteq> ''type'' \<longrightarrow> map_of chart' k = map_of chart k)
         \<and> (\<forall>k. k \<noteq> ''datasets'' \<longrightarrow>
               opt_get (get chart' ''data'') k = opt_get (get chart ''data'') k))"
    if ds: "datasets_of chart = Arr ds" for ds
  proof (rule conjI)
    let ?new = "Arr (map (\<lambda>(index, dataset).
                    Obj (AList.update ''backgroundColor'' (color_at palette index)
                          (AList.update ''borderColor'' (color_at palette index)
                            (spread dataset))))
                  (enumerate 0 ds))"
    have tr: "truthy (datasets_of chart)"
      using ds by simp
    have "last (colors colorPalette c hooks) h a = Inr (h[a := set_datasets ?new chart], a)"
      unfolding colors by (rule colors_hook_on_datasets[OF assms(1) ds])
    moreover have "fetch (h[a := set_datasets ?new chart]) a = Some (set_datasets ?new chart)"
      using a by (rule fetch_list_update_same)
    ultimately show "\<exists>h' chart'.
           last (colors colorPalette c hooks) h a = Inr (h', a) \<and> fetch h' a = Some chart'
         \<and> datasets_of chart' = ?new
         \<and> (\<forall>k. k \<noteq> ''data'' \<longrightarrow> map_of chart' k = map_of chart k)
         \<and> (\<forall>k. k \<noteq> ''datasets'' \<longrightarrow>
               opt_get (get chart' ''data'') k = opt_get (get chart ''data'') k)"
      using written_datasets[OF tr, of ?new] by blast
  next
    let ?new = "Arr (map (\<lambda>(index, dataset).
                    Obj (assign_all (spread dataset) (spread (fragment_at h1 t index))))
                  (enumerate 0 ds))"
    let ?chart' = "set_datasets ?new ?chart1"
    have tr: "truthy (datasets_of ?chart1)"
      using ds by (simp add: datasets_of_update_type)
    have "last (datasets types g hooks) h a = Inr (h[a := ?chart'], a)"
      unfolding datasets assms(5) by (rule datasets_hook_on_datasets[OF assms(1) ds])
    moreover have "fetch (h[a := ?chart']) a = Some ?chart'"
      using a by (rule fetch_list_update_same)
    moreover have "get ?chart' ''type'' = Str general"
      by (simp add: get_set_datasets get_update)
    moreover have "\<forall>k. k \<noteq> ''data'' \<and> k \<noteq> ''type'' \<longrightarrow> map_of ?chart' k = map_of chart k"
      by (simp add: map_of_set_datasets update_conv')
    moreover have "\<forall>k. k \<noteq> ''datasets'' \<longrightarrow>
               opt_get (get ?chart' ''data'') k = opt_get (get chart ''data'') k"
      by (simp add: data_block_set_datasets get_update)
    moreover have "datasets_of ?chart' = ?new"
      using tr by (rule datasets_of_set_datasets)
    ultimately show "\<exists>h' chart'.
           last (datasets types g hooks) h a = Inr (h', a) \<and> fetch h' a = Some chart'
         \<and> get chart' ''type'' = Str general
         \<and> datasets_of chart' = ?new
         \<and> (\<forall>k. k \<noteq> ''data'' \<and> k \<noteq> ''type'' \<longrightarrow> map_of chart' k = map_of chart k)
         \<and> (\<forall>k. k \<noteq> ''datasets'' \<longrightarrow>
               opt_get (get chart' ''data'') k = opt_get (get chart ''data'') k)"
      by blast
  qed
  have absent: "last (colors colorPalette c hooks) h a = Inr (h, a)
      \<and> last (datasets types g hooks) h a = Inr (h1, a)"
    if "\<not> truthy (datasets_of chart)"
    unfolding colors datasets assms(5)
    using colors_hook_no_datasets[OF assms(1) that] datasets_hook_no_datasets[OF assms(1) that]
    by simp
  have throws: "last (colors colorPalette c hooks) h a = Inl (TypeError, h)
      \<and> last (datasets types g hooks) h a = Inl (TypeError, h1)"
    if "truthy (datasets_of chart) \<and> (\<nexists>ds. datasets_of chart = Arr ds)"
    unfolding colors datasets assms(5)
    using colors_hook_not_array[OF assms(1)] datasets_hook_not_array[OF assms(1)] that
    by simp
  note rm = return_merged_Some[OF assms(1)]
  have m1: "last (responsive m hooks) h a =
        Inr (h @ [mergeOptions chart
                    [(''options'', Obj [(''maintainAspectRatio'',
                        Bool (case m of None \<Rightarrow> True | Some b \<Rightarrow> b))])]],
             length h)"
    unfolding responsive_def Let_def last_snoc by (rule rm)
  have m2: "last (legend l hooks) h a =
        Inr (h @ [mergeOptions chart [(''options'', Obj [(''legend'', deref h (legend_arg l))])]],
             length h)"
    unfolding legend_def legend_hook_def last_snoc by (rule rm)
  have m3: "last (displayAxes d s hooks) h a =
        Inr (h @ [mergeOptions chart
                    (if (case s of None \<Rightarrow> False | Some b \<Rightarrow> b)
                     then [(''options'', Obj [(''scale'', Obj
                             [(''display'', Bool (case d of None \<Rightarrow> True | Some b \<Rightarrow> b))])])]
                     else [(''options'', Obj [(''scales'', Obj
                             [(''xAxes'', Arr [Obj [(''display'',
                                 Bool (case d of None \<Rightarrow> True | Some b \<Rightarrow> b))]]),
                              (''yAxes'', Arr [Obj [(''display'',
                                 Bool (case d of None \<Rightarrow> True | Some b \<Rightarrow> b))]])])])])],
             length h)"
    unfolding displayAxes_def displayAxes_hook_def last_snoc
    by (cases "case s of None \<Rightarrow> False | Some b \<Rightarrow> b") (simp_all only: if_True if_False rm)
  have m4: "last (padding p hooks) h a =
        Inr (h @ [mergeOptions chart
                    [(''options'', Obj [(''layout'', Obj [(''padding'',
                        deref h (if p = Val Undefined then Val (Num 5) else p))])])]],
             length h)"
    unfolding padding_def padding_hook_def last_snoc by (rule rm)
  have m5: "last (title h0 x hooks) h a =
        Inr (h @ [mergeOptions chart [(''options'', Obj [(''title'', title_fragment h0 x)])]],
             length h)"
    unfolding title_def title_hook_def last_snoc by (rule rm)
  have m6: "last (beginAtZero z hooks) h a =
        Inr (h @ [mergeOptions chart
                    [(''options'', Obj [(''scales'', Obj
                        [(''yAxes'', Arr [Obj [(''ticks'', Obj [(''beginAtZero'',
                            Bool (case z of None \<Rightarrow> True | Some b \<Rightarrow> b))])]])])])]],
             length h)"
    unfolding beginAtZero_def beginAtZero_hook_def last_snoc by (rule rm)
  from present absent throws m1 m2 m3 m4 m5 m6 show ?thesis
    by blast
qed

theorem hooks_write_effects_witness:
  "fetch [example_chart] 0 = Some example_chart
   \<and> datasets_of example_chart = Arr example_datasets
   \<and> (\<exists>h' chart'.
         last (datasets (OneType ''bar'') None []) [example_chart] 0 = Inr (h', 0)
       \<and> fetch h' 0 = Some chart'
       \<and> get chart' ''type'' = Str ''bar''
       \<and> datasets_of chart' =
           Arr [Obj [(''label'', Str ''a''), (''type'', Str ''bar'')],
                Obj [(''label'', Str ''b''), (''borderColor'', Str ''old''), (''type'', Str ''bar'')],
                Obj [(''label'', Str ''c''), (''type'', Str ''bar'')]]
       \<and> opt_get (get chart' ''data'') ''labels'' = Arr [Str ''x''])
   \<and> last (responsive None []) [example_chart] 0 =
       Inr ([example_chart,
             mergeOptions example_chart [(''options'', Obj [(''maintainAspectRatio'', Bool True)])]],
            1)
   \<and> \<not> truthy (datasets_of example_chart_no_datasets)
   \<and> last (colors example_palette None []) [example_chart_no_datasets] 0 =
       Inr ([example_chart_no_datasets], 0)
   \<and> last (datasets (OneType ''bar'') None []) [example_chart_no_datasets] 0 =
       Inr ([AList.update ''type'' (Str ''bar'') example_chart_no_datasets], 0)
   \<and> truthy (datasets_of example_chart_bad_datasets)
   \<and> last (colors example_palette None []) [example_chart_bad_datasets] 0 =
       Inl (TypeError, [example_chart_bad_datasets])
   \<and> last (datasets (OneType ''bar'') None []) [example_chart_bad_datasets] 0 =
       Inl (TypeError, [AList.update ''type'' (Str ''bar'') example_chart_bad_datasets])"
proof -
  have p: "example_palette = (case None of None \<Rightarrow> example_palette | Some p \<Rightarrow> p)"
    and g: "''bar'' = (case None of None \<Rightarrow> ''bar'' | Some s \<Rightarrow> s)"
    by simp_all
  note w = hooks_write_effects[OF example_fetch p g refl refl,
      where types = "OneType ''bar''" and hooks = "[]" and m = None]
  from w[THEN conjunct1, rule_format, OF example_datasets_of, THEN conjunct2]
  obtain h' chart' where
    r: "last (datasets (OneType ''bar'') None []) [example_chart] 0 = Inr (h', 0)"
    and f: "fetch h' 0 = Some chart'"
    and ty: "get chart' ''type'' = Str ''bar''"
    and ds: "datasets_of chart' =
             Arr (map (\<lambda>(index, dataset).
                    Obj (assign_all (spread dataset)
                          (spread (fragment_at
                             ([example_chart][0 := AList.update ''type'' (Str ''bar'') example_chart])
                             (datasets_list (OneType ''bar'')) index))))
                  (enumerate 0 example_datasets))"
    and db: "\<forall>k. k \<noteq> ''datasets'' \<longrightarrow>
               opt_get (get chart' ''data'') k = opt_get (get example_chart ''data'') k"
    by (elim exE conjE) (rule that)
  have ds': "datasets_of chart' =
           Arr [Obj [(''label'', Str ''a''), (''type'', Str ''bar'')],
                Obj [(''label'', Str ''b''), (''borderColor'', Str ''old''), (''type'', Str ''bar'')],
                Obj [(''label'', Str ''c''), (''type'', Str ''bar'')]]"
    unfolding ds
    by (simp add: datasets_list_def fragment_at_def at_mod_def assign_all_def enumerate_eq_zip
          upt_rec example_datasets_def)
  have lb: "opt_get (get chart' ''data'') ''labels'' = Arr [Str ''x'']"
    using db[rule_format, of "''labels''"] by (simp add: get_def example_chart_def)
  have present: "\<exists>h' chart'.
         last (datasets (OneType ''bar'') None []) [example_chart] 0 = Inr (h', 0)
       \<and> fetch h' 0 = Some chart'
       \<and> get chart' ''type'' = Str ''bar''
       \<and> datasets_of chart' =
           Arr [Obj [(''label'', Str ''a''), (''type'', Str ''bar'')],
                Obj [(''label'', Str ''b''), (''borderColor'', Str ''old''), (''type'', Str ''bar'')],
                Obj [(''label'', Str ''c''), (''type'', Str ''bar'')]]
       \<and> opt_get (get chart' ''data'') ''labels'' = Arr [Str ''x'']"
    using r f ty ds' lb by blast
  have merged: "last (responsive None []) [example_chart] 0 =
       Inr ([example_chart,
             mergeOptions example_chart [(''options'', Obj [(''maintainAspectRatio'', Bool True)])]],
            1)"
    using w[THEN conjunct2, THEN conjunct2, THEN conjunct2, THEN conjunct1] by simp
  have fn: "fetch [example_chart_no_datasets] 0 = Some example_chart_no_datasets"
    by (simp add: fetch_def)
  have an: "\<not> truthy (datasets_of example_chart_no_datasets)"
    by (simp add: example_no_datasets)
  note wn = hooks_write_effects[OF fn p g refl refl,
      where types = "OneType ''bar''" and hooks = "[]",
      THEN conjunct2, THEN conjunct1, rule_format, OF an]
  have absent: "last (colors example_palette None []) [example_chart_no_datasets] 0 =
       Inr ([example_chart_no_datasets], 0)
   \<and> last (datasets (OneType ''bar'') None []) [example_chart_no_datasets] 0 =
       Inr ([AList.update ''type'' (Str ''bar'') example_chart_no_datasets], 0)"
    using wn by simp
  have fb: "fetch [example_chart_bad_datasets] 0 = Some example_chart_bad_datasets"
    by (simp add: fetch_def)
  have tb: "truthy (datasets_of example_chart_bad_datasets)"
    and nb: "\<nexists>ds. datasets_of example_chart_bad_datasets = Arr ds"
    by (simp_all add: datasets_of_def get_def example_chart_bad_datasets_def)
  from tb nb have b: "truthy (datasets_of example_chart_bad_datasets)
                   \<and> (\<nexists>ds. datasets_of example_chart_bad_datasets = Arr ds)"
    by (rule conjI)
  note wb = hooks_write_effects[OF fb p g refl refl,
      where types = "OneType ''bar''" and hooks = "[]",
      THEN conjunct2, THEN conjunct2, THEN conjunct1, rule_format, OF b]
  have throws: "last (colors example_palette None []) [example_chart_bad_datasets] 0 =
       Inl (TypeError, [example_chart_bad_datasets])
   \<and> last (datasets (OneType ''bar'') None []) [example_chart_bad_datasets] 0 =
       Inl (TypeError, [AList.update ''type'' (Str ''bar'') example_chart_bad_datasets])"
    using wb by simp
  from example_fetch example_datasets_of present merged an absent tb throws show ?thesis
    by blast
qed




end
